theory Spec2Isabelle
  imports Main
begin

section \<open>Python values used by the application\<close>

text \<open>
  A Python \<open>str\<close> is a sequence of Unicode code points.  The texts of \<open>app.py\<close> are
  mostly Japanese, so a string is modelled as the list of its code points and every
  literal of the source is written out as such a list.  ASCII literals go through
  \<open>ascii\<close>.
\<close>

type_synonym pystr = "nat list"

definition ascii :: "string \<Rightarrow> pystr" where
  "ascii s = map of_char s"

text \<open>
  Exceptions.  \<open>except Exception\<close> catches the instances of \<open>Exception\<close>; the classes
  \<open>KeyboardInterrupt\<close>, \<open>SystemExit\<close> and \<open>GeneratorExit\<close> derive from \<open>BaseException\<close>
  only.  \<open>StreamlitSecretNotFoundError\<close> is what Streamlit's secrets store raises when
  it finds no secrets file (a subclass of \<open>FileNotFoundError\<close>, hence of \<open>Exception\<close>, and
  not a \<open>KeyError\<close>).  \<open>OtherException\<close> stands for every further subclass of
  \<open>Exception\<close> (connection, authentication and provider errors of the client library
  among them).  An exception value carries its class and the text \<open>str(e)\<close>.
\<close>

datatype exc_type =
  ValueError | KeyError | StreamlitSecretNotFoundError | OtherException
| KeyboardInterrupt | SystemExit | GeneratorExit

datatype pyexc = PyExc (exc_type: exc_type) (exc_str: pystr)

fun is_Exception :: "exc_type \<Rightarrow> bool" where
  "is_Exception ValueError = True"
| "is_Exception KeyError = True"
| "is_Exception StreamlitSecretNotFoundError = True"
| "is_Exception OtherException = True"
| "is_Exception KeyboardInterrupt = False"
| "is_Exception SystemExit = False"
| "is_Exception GeneratorExit = False"

text \<open>
  The values that \<open>os.getenv\<close> and \<open>st.secrets.get\<close> hand to \<open>or\<close> and \<open>bool\<close>: \<open>None\<close>,
  strings, and for a secrets file the other TOML kinds (integers, booleans, arrays,
  tables).  \<open>truthy\<close> is Python's truth value of each.
\<close>

datatype pyval =
  PNone
| PStr pystr
| PInt int
| PBool bool
| PList "pyval list"
| PTable "(pystr \<times> pyval) list"

fun truthy :: "pyval \<Rightarrow> bool" where
  "truthy PNone = False"
| "truthy (PStr s) = (s \<noteq> [])"
| "truthy (PInt i) = (i \<noteq> 0)"
| "truthy (PBool b) = b"
| "truthy (PList xs) = (xs \<noteq> [])"
| "truthy (PTable kvs) = (kvs \<noteq> [])"

text \<open>
  \<open>a or b\<close> evaluates \<open>b\<close> only when \<open>a\<close> is falsy, so an exception raised by \<open>b\<close> is
  the result in that case alone.
\<close>

definition py_or :: "pyval \<Rightarrow> pyexc + pyval \<Rightarrow> pyexc + pyval" where
  "py_or a b = (if truthy a then Inr a else b)"

subsection \<open>\<open>str.isspace\<close> and \<open>str.strip\<close>\<close>

text \<open>
  \<open>str.strip()\<close> without argument removes leading and trailing whitespace, where
  whitespace is what \<open>str.isspace\<close> accepts: U+0009..U+000D, U+001C..U+0020, U+0085,
  U+00A0, U+1680, U+2000..U+200A, U+2028, U+2029, U+202F, U+205F and U+3000.
\<close>

definition py_isspace :: "nat \<Rightarrow> bool" where
  "py_isspace c =
     ((9 \<le> c \<and> c \<le> 13) \<or> (28 \<le> c \<and> c \<le> 32) \<or> c = 133 \<or> c = 160 \<or> c = 5760 \<or>
      (8192 \<le> c \<and> c \<le> 8202) \<or> c = 8232 \<or> c = 8233 \<or> c = 8239 \<or> c = 8287 \<or> c = 12288)"

definition py_strip :: "pystr \<Rightarrow> pystr" where
  "py_strip s = rev (dropWhile py_isspace (rev (dropWhile py_isspace s)))"

section \<open>The persona resolver\<close>

text \<open>
  The two keys of \<open>presets\<close>: \<open>data_scientist\<close> is the katakana label read
  "deeta saientisuto", \<open>product_manager\<close> the one read "purodakuto maneejaa".
\<close>

definition data_scientist :: pystr where
  "data_scientist =
     [12487, 12540, 12479, 12469, 12452, 12456, 12531, 12486, 12451, 12473, 12488]"

definition product_manager :: pystr where
  "product_manager =
     [12503, 12525, 12480, 12463, 12488, 12510, 12493, 12540, 12472, 12515, 12540]"

text \<open>
  The three instruction texts: the data scientist's ("You are a first-rate data
  scientist ..."), the product manager's ("You are a seasoned product manager ...", with
  the ASCII run \<open>(KPI)\<close> and a slash) and the default of \<open>presets.get\<close> ("You are a
  capable assistant.  Answer briefly and accurately.").
\<close>

definition data_scientist_instruction :: pystr where
  "data_scientist_instruction =
     [12354, 12394, 12383, 12399, 19968, 27969, 12398, 12487, 12540, 12479, 12469, 12452,
     12456, 12531, 12486, 12451, 12473, 12488, 12391, 12377, 12290, 21069, 25552, 12539,
     20206, 35500, 12539, 26908, 35388, 25163, 27861, 12539, 35413, 20385, 25351, 27161,
     12539, 38480, 30028, 12434, 38918, 24207, 31435, 12390, 12390, 35500, 26126, 12375,
     12289, 24517, 35201, 12394, 12425, 31777, 28500, 12394, 25968, 24335, 12420, 30097,
     20284, 12467, 12540, 12489, 12418, 31034, 12375, 12390, 12367, 12384, 12373, 12356,
     12290, 23554, 38272, 29992, 35486, 12399, 20013, 39640, 29983, 12395, 12418, 20253,
     12431, 12427, 12424, 12358, 30701, 12367, 35036, 36275, 12375, 12390, 12367, 12384,
     12373, 12356, 12290]"

definition product_manager_instruction :: pystr where
  "product_manager_instruction =
     [12354, 12394, 12383, 12399, 29087, 32244, 12398, 12503, 12525, 12480, 12463, 12488,
     12510, 12493, 12540, 12472, 12515, 12540, 12391, 12377, 12290, 12518, 12540, 12470,
     35506, 38988, 8594, 35299, 27770, 26696, 8594, 25104, 21151, 25351, 27161, 40, 75, 80,
     73, 41, 8594, 12522, 12473, 12463, 47, 20195, 26367, 26696, 8594, 27425, 12450, 12463,
     12471, 12519, 12531, 12398, 38918, 12391, 25552, 26696, 12375, 12390, 12367, 12384,
     12373, 12356, 12290, 31623, 26465, 26360, 12365, 12434, 22522, 26412, 12395, 12289,
     36942, 24230, 12395, 38263, 25991, 12395, 12375, 12394, 12356, 12391, 12367, 12384,
     12373, 12356, 12290]"

definition fallback_instruction :: pystr where
  "fallback_instruction =
     [12354, 12394, 12383, 12399, 26377, 33021, 12394, 12450, 12471, 12473, 12479, 12531,
     12488, 12391, 12377, 12290, 31777, 28500, 12363, 12388, 27491, 30906, 12395, 31572,
     12360, 12390, 12367, 12384, 12373, 12356, 12290]"

definition presets :: "(pystr \<times> pystr) list" where
  "presets =
     [(data_scientist, data_scientist_instruction),
      (product_manager, product_manager_instruction)]"

text \<open>\<open>dict.get(key, default)\<close> on a dictionary written as the list of its items.\<close>

definition dict_get :: "('k \<times> 'v) list \<Rightarrow> 'k \<Rightarrow> 'v \<Rightarrow> 'v" where
  "dict_get d k dflt = (case map_of d k of None \<Rightarrow> dflt | Some v \<Rightarrow> v)"

definition system_message_for :: "pystr \<Rightarrow> pystr" where
  "system_message_for expert_role = dict_get presets expert_role fallback_instruction"

section \<open>Prompt templates\<close>

text \<open>
  \<open>ChatPromptTemplate.from_messages\<close> takes pairs of a message type and a template in
  Python's format-string syntax; both texts of the pair list in \<open>generate_response\<close> are
  templates, the system text too.  Invoking the prompt renders each template with the
  input variables: text is copied, \<open>{{\<close> and \<open>}}\<close> stand for one brace, and
  \<open>{name}\<close> is replaced by the value of the variable, which is not scanned again.
  A lone brace and an unclosed field raise \<open>ValueError\<close>, a variable that was not
  supplied raises \<open>KeyError\<close>.  Replacement fields with a conversion, a format
  specification, an attribute or an index are outside the model (an error there too);
  the exception texts are the parser's own, shortened for the missing variable.

  The second argument of \<open>format_template\<close> is \<open>None\<close> while literal text is read and
  \<open>Some name\<close> inside a replacement field, \<open>name\<close> being the part of the field name
  read so far.
\<close>

definition LBRACE :: nat where "LBRACE = 123"
definition RBRACE :: nat where "RBRACE = 125"

definition field_special :: "nat \<Rightarrow> bool" where
  "field_special c = (c = LBRACE \<or> c = 33 \<or> c = 58 \<or> c = 46 \<or> c = 91)"

fun prepend :: "pystr \<Rightarrow> pyexc + pystr \<Rightarrow> pyexc + pystr" where
  "prepend s (Inl e) = Inl e"
| "prepend s (Inr t) = Inr (s @ t)"

fun format_template :: "(pystr \<rightharpoonup> pystr) \<Rightarrow> pystr option \<Rightarrow> pystr \<Rightarrow> pyexc + pystr" where
  "format_template vars None [] = Inr []"
| "format_template vars None [c] =
     (if c = LBRACE then
        Inl (PyExc ValueError (ascii ''Single '' @ [39, LBRACE, 39] @
                               ascii '' encountered in format string''))
      else if c = RBRACE then
        Inl (PyExc ValueError (ascii ''Single '' @ [39, RBRACE, 39] @
                               ascii '' encountered in format string''))
      else Inr [c])"
| "format_template vars None (c # d # cs) =
     (if c = LBRACE then
        (if d = LBRACE then prepend [LBRACE] (format_template vars None cs)
         else format_template vars (Some []) (d # cs))
      else if c = RBRACE then
        (if d = RBRACE then prepend [RBRACE] (format_template vars None cs)
         else Inl (PyExc ValueError (ascii ''Single '' @ [39, RBRACE, 39] @
                                     ascii '' encountered in format string'')))
      else prepend [c] (format_template vars None (d # cs)))"
| "format_template vars (Some name) [] =
     Inl (PyExc ValueError (ascii ''expected '' @ [39, RBRACE, 39] @
                            ascii '' before end of string''))"
| "format_template vars (Some name) (c # cs) =
     (if c = RBRACE then
        (case vars name of
           None \<Rightarrow> Inl (PyExc KeyError name)
         | Some v \<Rightarrow> prepend v (format_template vars None cs))
      else if field_special c then
        Inl (PyExc ValueError (ascii ''unsupported replacement field''))
      else format_template vars (Some (name @ [c])) cs)"

datatype msg_type = System | Human

type_synonym message = "msg_type \<times> pystr"

fun format_messages :: "(pystr \<rightharpoonup> pystr) \<Rightarrow> (msg_type \<times> pystr) list \<Rightarrow> pyexc + message list" where
  "format_messages vars [] = Inr []"
| "format_messages vars ((ty, template) # rest) =
     (case format_template vars None template of
        Inl e \<Rightarrow> Inl e
      | Inr content \<Rightarrow>
          (case format_messages vars rest of
             Inl e \<Rightarrow> Inl e
           | Inr ms \<Rightarrow> Inr ((ty, content) # ms)))"

section \<open>\<open>generate_response\<close>\<close>

text \<open>
  The keyword arguments of the \<open>ChatOpenAI\<close> constructor.  The temperature is kept as
  the decimal literal of the source: \<open>Decimal m e\<close> is the literal with value
  \<open>m * 10 ^ e\<close>, so \<open>0.2\<close> is \<open>Decimal 2 (- 1)\<close>; no arithmetic is done on it.
\<close>

datatype float_literal = Decimal int int

record llm_config =
  model :: pystr
  temperature :: float_literal

text \<open>
  What the program does to the outside, in order.  The first five are the Streamlit
  calls of the submission branch (\<open>st.warning\<close>, \<open>st.error\<close>, \<open>st.info\<close>,
  \<open>st.markdown\<close>, \<open>st.write\<close>) and \<open>Spinner\<close> is the entry into \<open>st.spinner\<close>.
  \<open>Invoke user_text role\<close> is the call of \<open>generate_response\<close> by the handler,
  \<open>ChatOpenAI cfg\<close> the construction of the client and \<open>Sent msgs\<close> the conversation
  handed to the client by \<open>chain.invoke\<close>.
\<close>

datatype event =
  Warning pystr
| Error pystr
| Info pystr
| Markdown pystr
| Write pystr
| Spinner pystr
| Invoke pystr pystr
| ChatOpenAI llm_config
| Sent "message list"

text \<open>
  The remote side is a parameter.  Constructing the client either raises or gives a chat
  model; the chat model, given a conversation, either raises or answers with a message
  whose text \<open>StrOutputParser\<close> returns as it is.
\<close>

type_synonym chat_model = "message list \<Rightarrow> pyexc + pystr"
type_synonym provider = "llm_config \<Rightarrow> pyexc + chat_model"

definition llm_kwargs :: llm_config where
  "llm_kwargs = \<lparr>model = ascii ''gpt-4o-mini'', temperature = Decimal 2 (- 1)\<rparr>"

definition chat_prompt :: "pystr \<Rightarrow> (msg_type \<times> pystr) list" where
  "chat_prompt expert_role =
     [(System, system_message_for expert_role), (Human, ascii ''{input_text}'')]"

definition generate_response :: "provider \<Rightarrow> pystr \<Rightarrow> pystr \<Rightarrow> event list \<times> (pyexc + pystr)" where
  "generate_response provider user_text expert_role =
     (case provider llm_kwargs of
        Inl e \<Rightarrow> ([ChatOpenAI llm_kwargs], Inl e)
      | Inr llm \<Rightarrow>
          (case format_messages [ascii ''input_text'' \<mapsto> user_text] (chat_prompt expert_role) of
             Inl e \<Rightarrow> ([ChatOpenAI llm_kwargs], Inl e)
           | Inr msgs \<Rightarrow> ([ChatOpenAI llm_kwargs, Sent msgs], llm msgs)))"

section \<open>The submission handler\<close>

text \<open>
  The environment maps variable names to strings; \<open>os.getenv\<close> gives \<open>None\<close> for a
  variable that is not set.  The secrets store is \<open>None\<close> when no \<open>secrets.toml\<close> exists
  and otherwise the mapping read from the file.  \<open>st.secrets.get\<close> is the \<open>get\<close> of
  \<open>Mapping\<close>, which turns a \<open>KeyError\<close> of the lookup into the default; without a
  secrets file the lookup raises \<open>StreamlitSecretNotFoundError\<close> instead, and that
  passes through \<open>get\<close>.  Its text starts with the words below (the list of the paths
  that were searched, which follows them, is left out).
\<close>

type_synonym environ = "pystr \<rightharpoonup> pystr"
type_synonym secrets = "(pystr \<rightharpoonup> pyval) option"

definition no_secrets_found :: pyexc where
  "no_secrets_found = PyExc StreamlitSecretNotFoundError (ascii ''No secrets found.'')"

definition os_getenv :: "environ \<Rightarrow> pystr \<Rightarrow> pyval" where
  "os_getenv env k = (case env k of None \<Rightarrow> PNone | Some s \<Rightarrow> PStr s)"

definition secrets_get :: "secrets \<Rightarrow> pystr \<Rightarrow> pyval \<Rightarrow> pyexc + pyval" where
  "secrets_get sec k dflt =
     (case sec of
        None \<Rightarrow> Inl no_secrets_found
      | Some store \<Rightarrow> Inr (case store k of None \<Rightarrow> dflt | Some v \<Rightarrow> v))"

definition OPENAI_API_KEY :: pystr where
  "OPENAI_API_KEY = ascii ''OPENAI_API_KEY''"

definition api_key_exists :: "environ \<Rightarrow> secrets \<Rightarrow> pyexc + bool" where
  "api_key_exists env sec =
     (case py_or (os_getenv env OPENAI_API_KEY) (secrets_get sec OPENAI_API_KEY PNone) of
        Inl e \<Rightarrow> Inl e
      | Inr v \<Rightarrow> Inr (truthy v))"

text \<open>
  The texts shown by the handler: the warning for empty input ("Please enter the input
  text."), the error for a missing key (it starts with the ASCII words \<open>OpenAI API\<close> and
  names \<open>.env\<close>, \<open>Secrets\<close> and \<open>OPENAI_API_KEY\<close>), the spinner text, the heading of the
  answer (\<open>### :brain:\<close> and two kanji), the prefix of the error message ("An error
  occurred: ") and the hint shown after it (it names \<open>langchain / langchain-openai\<close>).
\<close>

definition empty_input_warning :: pystr where
  "empty_input_warning =
     [20837, 21147, 12486, 12461, 12473, 12488, 12434, 20837, 21147, 12375, 12390, 12367,
     12384, 12373, 12356, 12290]"

definition missing_key_error :: pystr where
  "missing_key_error =
     [79, 112, 101, 110, 65, 73, 32, 65, 80, 73, 32, 12461, 12540, 12364, 35211, 12388,
     12363, 12426, 12414, 12379, 12435, 12391, 12375, 12383, 12290, 12525, 12540, 12459,
     12523, 12399, 32, 96, 46, 101, 110, 118, 96, 12289, 12487, 12503, 12525, 12452, 12399,
     32, 83, 101, 99, 114, 101, 116, 115, 32, 12395, 32, 96, 79, 80, 69, 78, 65, 73, 95, 65,
     80, 73, 95, 75, 69, 89, 96, 32, 12434, 35373, 23450, 12375, 12390, 12367, 12384, 12373,
     12356, 12290]"

definition spinner_text :: pystr where
  "spinner_text =
     [76, 76, 77, 32, 12395, 21839, 12356, 21512, 12431, 12379, 12390, 12356, 12414, 12377,
     8230]"

definition answer_heading :: pystr where
  "answer_heading =
     [35, 35, 35, 32, 58, 98, 114, 97, 105, 110, 58, 32, 22238, 31572]"

definition error_prefix :: pystr where
  "error_prefix =
     [12456, 12521, 12540, 12364, 30330, 29983, 12375, 12414, 12375, 12383, 58, 32]"

definition troubleshooting_hint :: pystr where
  "troubleshooting_hint =
     [65, 80, 73, 32, 12461, 12540, 12289, 12514, 12487, 12523, 21517, 12289, 12493, 12483,
     12488, 12527, 12540, 12463, 12289, 20381, 23384, 38306, 20418, 12496, 12540, 12472,
     12519, 12531, 65288, 108, 97, 110, 103, 99, 104, 97, 105, 110, 32, 47, 32, 108, 97, 110,
     103, 99, 104, 97, 105, 110, 45, 111, 112, 101, 110, 97, 105, 65289, 12434, 12372, 30906,
     35469, 12367, 12384, 12373, 12356, 12290]"

text \<open>
  The script from the assignment of \<open>api_key_exists\<close> to its end: the assignment is
  evaluated on every run, before \<open>if submitted:\<close>, and an exception raised there leaves
  the script with none of the branches below entered.  The result is the trace of events
  and the exception that leaves the script, if any: \<open>except Exception as e\<close> handles the
  instances of \<open>Exception\<close>, anything else raised by \<open>generate_response\<close> propagates.
\<close>

definition handle_submission ::
  "provider \<Rightarrow> environ \<Rightarrow> secrets \<Rightarrow> bool \<Rightarrow> pystr \<Rightarrow> pystr \<Rightarrow> event list \<times> pyexc option" where
  "handle_submission provider env sec submitted user_text role =
     (case api_key_exists env sec of
        Inl e \<Rightarrow> ([], Some e)
      | Inr key_present \<Rightarrow>
          if submitted then
            if \<not> truthy (PStr (py_strip user_text)) then
              ([Warning empty_input_warning], None)
            else if \<not> key_present then ([Error missing_key_error], None)
            else
              (case generate_response provider user_text role of
                 (evs, Inr answer) \<Rightarrow>
                   ([Spinner spinner_text, Invoke user_text role] @ evs @
                    [Markdown answer_heading, Write answer], None)
               | (evs, Inl e) \<Rightarrow>
                   if is_Exception (exc_type e) then
                     ([Spinner spinner_text, Invoke user_text role] @ evs @
                      [Error (error_prefix @ exc_str e), Info troubleshooting_hint], None)
                   else ([Spinner spinner_text, Invoke user_text role] @ evs, Some e))
          else ([], None))"

text \<open>Projections of a trace.\<close>

fun invocations :: "event list \<Rightarrow> (pystr \<times> pystr) list" where
  "invocations [] = []"
| "invocations (Invoke t r # evs) = (t, r) # invocations evs"
| "invocations (_ # evs) = invocations evs"

fun constructions :: "event list \<Rightarrow> llm_config list" where
  "constructions [] = []"
| "constructions (ChatOpenAI cfg # evs) = cfg # constructions evs"
| "constructions (_ # evs) = constructions evs"

fun conversations :: "event list \<Rightarrow> message list list" where
  "conversations [] = []"
| "conversations (Sent msgs # evs) = msgs # conversations evs"
| "conversations (_ # evs) = conversations evs"

section \<open>Sample inputs\<close>

text \<open>
  Providers, environments and secrets stores for concrete runs: a provider whose chat
  model always answers with a given text, one whose chat model always raises a given
  exception, an empty environment, an environment holding only the key, the state with
  no secrets file and a secrets file with no entry.
\<close>

definition answering :: "pystr \<Rightarrow> provider" where
  "answering answer = (\<lambda>cfg. Inr (\<lambda>msgs. Inr answer))"

definition failing :: "pyexc \<Rightarrow> provider" where
  "failing e = (\<lambda>cfg. Inr (\<lambda>msgs. Inl e))"

definition no_environ :: environ where
  "no_environ = Map.empty"

definition no_secrets_file :: secrets where
  "no_secrets_file = None"

definition empty_secrets :: secrets where
  "empty_secrets = Some Map.empty"

definition environ_with_key :: "pystr \<Rightarrow> environ" where
  "environ_with_key k = [OPENAI_API_KEY \<mapsto> k]"

section \<open>Properties\<close>

subsection \<open>Rendering the prompt\<close>

lemma ascii_input_var: "ascii ''{input_text}'' = LBRACE # ascii ''input_text'' @ [RBRACE]"
  by (simp add: ascii_def LBRACE_def RBRACE_def)

lemma prepend_Inr_iff: "prepend s r = Inr t \<longleftrightarrow> (\<exists>u. r = Inr u \<and> t = s @ u)"
  by (cases r) auto

lemma format_template_plain:
  "LBRACE \<notin> set s \<Longrightarrow> RBRACE \<notin> set s \<Longrightarrow> format_template vars None s = Inr s"
proof (induction s rule: induct_list012)
  case 1
  show ?case by simp
next
  case (2 c)
  then show ?case by simp
next
  case (3 c d cs)
  then show ?case by simp
qed

lemma format_field_name:
  "\<forall>c \<in> set nm. c \<noteq> RBRACE \<and> \<not> field_special c \<Longrightarrow>
   format_template vars (Some acc) (nm @ RBRACE # rest) =
     (case vars (acc @ nm) of
        None \<Rightarrow> Inl (PyExc KeyError (acc @ nm))
      | Some v \<Rightarrow> prepend v (format_template vars None rest))"
  by (induction nm arbitrary: acc) (simp_all split: option.split)

lemma format_input_text:
  "format_template [ascii ''input_text'' \<mapsto> t] None (ascii ''{input_text}'') = Inr t"
proof -
  have nm: "\<forall>c \<in> set (ascii ''input_text''). c \<noteq> RBRACE \<and> \<not> field_special c"
    by (simp add: ascii_def RBRACE_def LBRACE_def field_special_def)
  have "ascii ''input_text'' = 105 # ascii ''nput_text''"
    by (simp add: ascii_def)
  then have "format_template [ascii ''input_text'' \<mapsto> t] None (ascii ''{input_text}'') =
      format_template [ascii ''input_text'' \<mapsto> t] (Some []) (ascii ''input_text'' @ RBRACE # [])"
    by (simp add: ascii_input_var LBRACE_def)
  also have "\<dots> = Inr t"
    using format_field_name [OF nm, of "[ascii ''input_text'' \<mapsto> t]" "[]" "[]"] by simp
  finally show ?thesis .
qed

lemma labels_distinct: "data_scientist \<noteq> product_manager"
  by (simp add: data_scientist_def product_manager_def)

lemma system_message_for_known:
  "system_message_for data_scientist = data_scientist_instruction"
  "system_message_for product_manager = product_manager_instruction"
  using labels_distinct by (simp_all add: system_message_for_def dict_get_def presets_def)

lemma system_message_for_unknown:
  "r \<noteq> data_scientist \<Longrightarrow> r \<noteq> product_manager \<Longrightarrow> system_message_for r = fallback_instruction"
  by (simp add: system_message_for_def dict_get_def presets_def)

lemma system_message_for_cases:
  "system_message_for r \<in> {data_scientist_instruction, product_manager_instruction, fallback_instruction}"
  using system_message_for_known system_message_for_unknown by (metis insertCI)

lemma instructions_plain:
  "LBRACE \<notin> set data_scientist_instruction \<and> RBRACE \<notin> set data_scientist_instruction"
  "LBRACE \<notin> set product_manager_instruction \<and> RBRACE \<notin> set product_manager_instruction"
  "LBRACE \<notin> set fallback_instruction \<and> RBRACE \<notin> set fallback_instruction"
  by (simp_all add: LBRACE_def RBRACE_def data_scientist_instruction_def
      product_manager_instruction_def fallback_instruction_def)

lemma system_message_plain:
  "LBRACE \<notin> set (system_message_for r) \<and> RBRACE \<notin> set (system_message_for r)"
  using system_message_for_cases [of r] instructions_plain by auto

lemma format_chat_prompt:
  "format_messages [ascii ''input_text'' \<mapsto> t] (chat_prompt r) =
     Inr [(System, system_message_for r), (Human, t)]"
  using system_message_plain [of r]
  by (simp add: chat_prompt_def format_template_plain format_input_text)

lemma py_strip_Nil_iff: "py_strip s = [] \<longleftrightarrow> (\<forall>c \<in> set s. py_isspace c)"
proof
  assume "py_strip s = []"
  then have all: "\<forall>c \<in> set (dropWhile py_isspace s). py_isspace c"
    by (simp add: py_strip_def)
  have "dropWhile py_isspace s = []"
  proof (rule ccontr)
    assume ne: "dropWhile py_isspace s \<noteq> []"
    then have "\<not> py_isspace (hd (dropWhile py_isspace s))" by (rule hd_dropWhile)
    moreover have "hd (dropWhile py_isspace s) \<in> set (dropWhile py_isspace s)"
      using ne by simp
    ultimately show False using all by blast
  qed
  then show "\<forall>c \<in> set s. py_isspace c" by simp
next
  assume "\<forall>c \<in> set s. py_isspace c"
  then have "dropWhile py_isspace s = []" by simp
  then show "py_strip s = []" unfolding py_strip_def by (simp del: dropWhile_eq_Nil_conv)
qed

subsection \<open>The credential lookup\<close>

text \<open>
  The lookup succeeds when the environment has a non-empty key (the store is then not
  consulted) or when a secrets file exists; with neither it raises.
\<close>

lemma api_key_exists_env:
  "env OPENAI_API_KEY = Some s \<Longrightarrow> s \<noteq> [] \<Longrightarrow> api_key_exists env sec = Inr True"
  by (simp add: api_key_exists_def py_or_def os_getenv_def)

lemma api_key_exists_no_file:
  "env OPENAI_API_KEY = None \<or> env OPENAI_API_KEY = Some [] \<Longrightarrow>
   api_key_exists env None = Inl no_secrets_found"
  by (auto simp add: api_key_exists_def py_or_def os_getenv_def secrets_get_def)

lemma api_key_exists_store:
  "env OPENAI_API_KEY = None \<or> env OPENAI_API_KEY = Some [] \<Longrightarrow>
   api_key_exists env (Some store) =
     Inr (case store OPENAI_API_KEY of None \<Rightarrow> False | Some v \<Rightarrow> truthy v)"
  by (auto simp add: api_key_exists_def py_or_def os_getenv_def secrets_get_def
      split: option.splits)

lemma api_key_exists_iff:
  "api_key_exists env sec = Inr True \<longleftrightarrow>
     (\<exists>s. env OPENAI_API_KEY = Some s \<and> s \<noteq> []) \<or>
     (\<exists>store v. sec = Some store \<and> store OPENAI_API_KEY = Some v \<and> truthy v)"
  by (auto simp add: api_key_exists_def py_or_def os_getenv_def secrets_get_def
      split: option.splits)

subsection \<open>The branches of the handler\<close>

text \<open>
  \<open>not user_text.strip()\<close> holds exactly for the texts made of whitespace only (the
  empty text among them), as \<open>py_strip_Nil_iff\<close> says.  When the credential lookup
  returns, the three branches of the handler follow; when it raises, none is entered.
\<close>

lemma handle_lookup_raises:
  "api_key_exists env sec = Inl e \<Longrightarrow>
   handle_submission provider env sec submitted t r = ([], Some e)"
  by (simp add: handle_submission_def)

lemma handle_blank:
  "api_key_exists env sec = Inr b \<Longrightarrow> \<forall>c \<in> set t. py_isspace c \<Longrightarrow>
   handle_submission provider env sec True t r = ([Warning empty_input_warning], None)"
  by (simp add: handle_submission_def py_strip_Nil_iff)

lemma handle_no_key:
  "api_key_exists env sec = Inr False \<Longrightarrow> \<exists>c \<in> set t. \<not> py_isspace c \<Longrightarrow>
   handle_submission provider env sec True t r = ([Error missing_key_error], None)"
  by (simp add: handle_submission_def py_strip_Nil_iff)

lemma handle_call:
  "api_key_exists env sec = Inr True \<Longrightarrow> \<exists>c \<in> set t. \<not> py_isspace c \<Longrightarrow>
   handle_submission provider env sec True t r =
     (case generate_response provider t r of
        (evs, Inr answer) \<Rightarrow>
          ([Spinner spinner_text, Invoke t r] @ evs @ [Markdown answer_heading, Write answer],
           None)
      | (evs, Inl e) \<Rightarrow>
          if is_Exception (exc_type e) then
            ([Spinner spinner_text, Invoke t r] @ evs @
             [Error (error_prefix @ exc_str e), Info troubleshooting_hint], None)
          else ([Spinner spinner_text, Invoke t r] @ evs, Some e))"
  by (simp add: handle_submission_def py_strip_Nil_iff split: prod.split sum.split)

lemma blank_never_invokes:
  assumes "\<forall>c \<in> set t. py_isspace c"
  shows "invocations (fst (handle_submission provider env sec True t r)) = [] \<and>
    constructions (fst (handle_submission provider env sec True t r)) = [] \<and>
    conversations (fst (handle_submission provider env sec True t r)) = []"
proof (cases "api_key_exists env sec")
  case (Inl e)
  then show ?thesis by (simp add: handle_lookup_raises)
next
  case (Inr b)
  show ?thesis using handle_blank [OF Inr assms] by simp
qed

lemma no_key_never_invokes:
  assumes "api_key_exists env sec \<noteq> Inr True"
  shows "invocations (fst (handle_submission provider env sec True t r)) = [] \<and>
    constructions (fst (handle_submission provider env sec True t r)) = [] \<and>
    conversations (fst (handle_submission provider env sec True t r)) = []"
proof (cases "api_key_exists env sec")
  case (Inl e)
  then show ?thesis by (simp add: handle_lookup_raises)
next
  case (Inr b)
  with assms have f: "api_key_exists env sec = Inr False" by simp
  show ?thesis
  proof (cases "\<forall>c \<in> set t. py_isspace c")
    case True
    show ?thesis using handle_blank [OF f True] by simp
  next
    case False
    then have "\<exists>c \<in> set t. \<not> py_isspace c" by simp
    then show ?thesis using handle_no_key [OF f] by simp
  qed
qed

lemma generate_response_trace:
  "generate_response provider t r =
     (case provider llm_kwargs of
        Inl e \<Rightarrow> ([ChatOpenAI llm_kwargs], Inl e)
      | Inr llm \<Rightarrow>
          ([ChatOpenAI llm_kwargs, Sent [(System, system_message_for r), (Human, t)]],
           llm [(System, system_message_for r), (Human, t)]))"
  by (simp add: generate_response_def format_chat_prompt split: sum.split)


subsection \<open>The persona resolver\<close>

text \<open>
  C2.  Every persona identifier other than the two keys of \<open>presets\<close> resolves to the
  fixed default instruction; the resolver has no failing branch.
\<close>

theorem system_message_for_fallback:
  "expert_role \<noteq> data_scientist \<Longrightarrow> expert_role \<noteq> product_manager \<Longrightarrow>
   system_message_for expert_role = fallback_instruction"
  by (rule system_message_for_unknown)

theorem system_message_for_fallback_witness:
  "ascii ''unknown-role'' \<noteq> data_scientist \<and> ascii ''unknown-role'' \<noteq> product_manager \<and>
   system_message_for (ascii ''unknown-role'') = fallback_instruction"
proof -
  have a: "ascii ''unknown-role'' \<noteq> data_scientist"
    by (simp add: ascii_def data_scientist_def)
  have b: "ascii ''unknown-role'' \<noteq> product_manager"
    by (simp add: ascii_def product_manager_def)
  show ?thesis using a b system_message_for_fallback [OF a b] by simp
qed

text \<open>
  C3.  Each of the two keys of \<open>presets\<close> resolves to its own instruction, and neither
  of these instructions is the default one.
\<close>

theorem system_message_for_presets:
  "system_message_for data_scientist = data_scientist_instruction \<and>
   system_message_for product_manager = product_manager_instruction \<and>
   data_scientist_instruction \<noteq> fallback_instruction \<and>
   product_manager_instruction \<noteq> fallback_instruction \<and>
   data_scientist_instruction \<noteq> product_manager_instruction"
  by (simp add: system_message_for_known)
    (simp add: data_scientist_instruction_def product_manager_instruction_def
      fallback_instruction_def)

text \<open>
  C9.  \<open>system_message_for\<close> is a function of its argument alone, defined on every
  string, and its result is always one of the three instruction texts, none of which is
  empty.
\<close>

theorem system_message_for_total:
  "system_message_for expert_role \<in>
     {data_scientist_instruction, product_manager_instruction, fallback_instruction} \<and>
   system_message_for expert_role \<noteq> []"
proof -
  have "data_scientist_instruction \<noteq> []" "product_manager_instruction \<noteq> []"
    "fallback_instruction \<noteq> []"
    by (simp_all add: data_scientist_instruction_def product_manager_instruction_def
        fallback_instruction_def)
  then show ?thesis using system_message_for_cases [of expert_role] by auto
qed

subsection \<open>The conversation and the client\<close>

text \<open>
  C1.  For every user text and every persona identifier, the prompt of
  \<open>generate_response\<close> renders to exactly two messages: the system message holding the
  instruction of \<open>system_message_for\<close> for that identifier, then the human message
  holding the user text, character for character (braces in the user text included).
  When the client is constructed this conversation is the one sent, and the result of
  \<open>generate_response\<close> is the chat model's result on it; when the constructor raises,
  nothing is sent.
\<close>

theorem generate_response_conversation:
  "format_messages [ascii ''input_text'' \<mapsto> user_text] (chat_prompt expert_role) =
     Inr [(System, system_message_for expert_role), (Human, user_text)] \<and>
   conversations (fst (generate_response provider user_text expert_role)) =
     (case provider llm_kwargs of
        Inl e \<Rightarrow> []
      | Inr llm \<Rightarrow> [[(System, system_message_for expert_role), (Human, user_text)]]) \<and>
   snd (generate_response provider user_text expert_role) =
     (case provider llm_kwargs of
        Inl e \<Rightarrow> Inl e
      | Inr llm \<Rightarrow> llm [(System, system_message_for expert_role), (Human, user_text)])"
  by (simp add: format_chat_prompt generate_response_trace split: sum.split)

theorem generate_response_conversation_witness:
  "conversations (fst (generate_response (answering [79, 75]) (ascii ''{input_text} }{'')
     data_scientist)) =
     [[(System, data_scientist_instruction), (Human, ascii ''{input_text} }{'')]]"
  using generate_response_conversation
    [of "ascii ''{input_text} }{''" data_scientist "answering [79, 75]"]
  by (simp add: answering_def system_message_for_known)

text \<open>
  C8.  Whatever the user text and the persona, \<open>generate_response\<close> constructs the
  client exactly once, with the model \<open>gpt-4o-mini\<close> and the temperature \<open>0.2\<close>.
\<close>

theorem generate_response_client_settings:
  "map model (constructions (fst (generate_response provider user_text expert_role))) =
     [ascii ''gpt-4o-mini''] \<and>
   map temperature (constructions (fst (generate_response provider user_text expert_role))) =
     [Decimal 2 (- 1)]"
  by (simp add: generate_response_trace llm_kwargs_def split: sum.split)

subsection \<open>Submissions\<close>

text \<open>
  C4.  The claim has the warning shown for blank text in every credential state.  With
  no key in the environment and no secrets file, the credential lookup raises before the
  text is looked at: a submission of blank text (a space, an ideographic space and a line
  feed here) shows nothing and the exception leaves the script.  Where the lookup
  returns, the warning is shown (\<open>handle_blank\<close>), and in every state
  \<open>generate_response\<close> is not called (\<open>blank_never_invokes\<close>).
\<close>

theorem blank_input_lookup_raises:
  "handle_submission (answering [79, 75]) no_environ no_secrets_file True [32, 12288, 10]
     data_scientist = ([], Some no_secrets_found)"
proof -
  have "api_key_exists no_environ no_secrets_file = Inl no_secrets_found"
    unfolding no_secrets_file_def by (rule api_key_exists_no_file) (simp add: no_environ_def)
  then show ?thesis by (rule handle_lookup_raises)
qed

text \<open>
  C7.  The claim has the text check made first, so that empty text with a missing
  credential shows the empty-input warning.  The \<open>if\<close>/\<open>elif\<close> chain has this order
  (\<open>handle_blank\<close>, \<open>handle_no_key\<close>, \<open>handle_call\<close>), but the credential lookup itself is
  evaluated before the chain: with no key in the environment and no secrets file, a
  submission of the empty text shows no warning and the exception of the lookup leaves
  the script.
\<close>

theorem empty_text_missing_key_raises:
  "handle_submission (answering [79, 75]) no_environ no_secrets_file True [] product_manager =
     ([], Some no_secrets_found) \<and>
   Warning empty_input_warning \<notin>
     set (fst (handle_submission (answering [79, 75]) no_environ no_secrets_file True []
       product_manager))"
proof -
  have "api_key_exists no_environ no_secrets_file = Inl no_secrets_found"
    unfolding no_secrets_file_def by (rule api_key_exists_no_file) (simp add: no_environ_def)
  then show ?thesis by (simp add: handle_lookup_raises)
qed

text \<open>
  C5.  The claim has the missing-key error shown when the key is in neither place.
  With no key in the environment and no secrets file, a submission of the text
  \<open>hello\<close> shows no error message: the credential lookup raises and its exception leaves
  the script.  \<open>generate_response\<close> is not called in any state without a key
  (\<open>no_key_never_invokes\<close>), and the error is shown when a secrets file exists and lacks
  the key (\<open>handle_no_key\<close> with \<open>api_key_exists_store\<close>).
\<close>

theorem missing_key_lookup_raises:
  "no_environ OPENAI_API_KEY = None \<and>
   handle_submission (answering [79, 75]) no_environ no_secrets_file True (ascii ''hello'')
     data_scientist = ([], Some no_secrets_found) \<and>
   Error missing_key_error \<notin>
     set (fst (handle_submission (answering [79, 75]) no_environ no_secrets_file True
       (ascii ''hello'') data_scientist))"
proof -
  have "api_key_exists no_environ no_secrets_file = Inl no_secrets_found"
    unfolding no_secrets_file_def by (rule api_key_exists_no_file) (simp add: no_environ_def)
  then show ?thesis by (simp add: handle_lookup_raises no_environ_def)
qed

text \<open>
  C6.  When the call of \<open>generate_response\<close> fails, at the construction of the client,
  in the rendering of the prompt or in the chat model, the handler ends normally after
  showing the error message (the fixed prefix followed by \<open>str(e)\<close>) and the fixed hint.
  The failures of the call are instances of \<open>Exception\<close>, which is what the handler's
  clause names; which of them it is makes no difference to what is shown.
\<close>

theorem remote_failure_handled:
  "\<exists>c \<in> set user_text. \<not> py_isspace c \<Longrightarrow> api_key_exists env sec = Inr True \<Longrightarrow>
   generate_response provider user_text role = (evs, Inl e) \<Longrightarrow>
   is_Exception (exc_type e) \<Longrightarrow>
   handle_submission provider env sec True user_text role =
     ([Spinner spinner_text, Invoke user_text role] @ evs @
      [Error (error_prefix @ exc_str e), Info troubleshooting_hint], None)"
  by (simp add: handle_call)

theorem remote_failure_handled_witness:
  "(\<exists>c \<in> set (ascii ''hello''). \<not> py_isspace c) \<and>
   api_key_exists (environ_with_key [115, 107]) no_secrets_file = Inr True \<and>
   is_Exception (exc_type (PyExc OtherException (ascii ''Connection error.''))) \<and>
   handle_submission (failing (PyExc OtherException (ascii ''Connection error.'')))
     (environ_with_key [115, 107]) no_secrets_file True (ascii ''hello'') product_manager =
     ([Spinner spinner_text, Invoke (ascii ''hello'') product_manager, ChatOpenAI llm_kwargs,
       Sent [(System, product_manager_instruction), (Human, ascii ''hello'')],
       Error (error_prefix @ ascii ''Connection error.''), Info troubleshooting_hint], None)"
proof -
  have t: "\<exists>c \<in> set (ascii ''hello''). \<not> py_isspace c"
    by (simp add: ascii_def py_isspace_def)
  have k: "api_key_exists (environ_with_key [115, 107]) no_secrets_file = Inr True"
    by (rule api_key_exists_env [of _ "[115, 107]"]) (simp_all add: environ_with_key_def)
  have g: "generate_response (failing (PyExc OtherException (ascii ''Connection error.'')))
      (ascii ''hello'') product_manager =
      ([ChatOpenAI llm_kwargs,
        Sent [(System, product_manager_instruction), (Human, ascii ''hello'')]],
       Inl (PyExc OtherException (ascii ''Connection error.'')))"
    by (simp add: generate_response_trace failing_def system_message_for_known)
  have x: "is_Exception (exc_type (PyExc OtherException (ascii ''Connection error.'')))"
    by simp
  show ?thesis using t k x remote_failure_handled [OF t k g x] by simp
qed

text \<open>
  C10.  \<open>api_key_exists\<close> is true exactly when the environment has a non-empty string for
  \<open>OPENAI_API_KEY\<close> or the secrets store has a truthy entry for it.  A key that is the
  empty string in both places counts as absent: the lookup gives false, and a submission
  then never calls \<open>generate_response\<close> and sends nothing.
\<close>

theorem empty_key_is_missing:
  "(api_key_exists env sec = Inr True \<longleftrightarrow>
      (\<exists>s. env OPENAI_API_KEY = Some s \<and> s \<noteq> []) \<or>
      (\<exists>store v. sec = Some store \<and> store OPENAI_API_KEY = Some v \<and> truthy v)) \<and>
   (env OPENAI_API_KEY = Some [] \<and> sec = Some store' \<and>
    store' OPENAI_API_KEY = Some (PStr []) \<longrightarrow>
      api_key_exists env sec = Inr False \<and>
      invocations (fst (handle_submission provider env sec True user_text role)) = [] \<and>
      conversations (fst (handle_submission provider env sec True user_text role)) = [])"
proof -
  have "api_key_exists env sec = Inr False"
    if "env OPENAI_API_KEY = Some []" "sec = Some store'"
      "store' OPENAI_API_KEY = Some (PStr [])"
    using that by (simp add: api_key_exists_store)
  then show ?thesis
    using no_key_never_invokes [of env sec provider user_text role]
    by (auto simp add: api_key_exists_iff)
qed

theorem empty_key_is_missing_witness:
  "environ_with_key [] OPENAI_API_KEY = Some [] \<and>
   [OPENAI_API_KEY \<mapsto> PStr []] OPENAI_API_KEY = Some (PStr []) \<and>
   api_key_exists (environ_with_key []) (Some [OPENAI_API_KEY \<mapsto> PStr []]) = Inr False \<and>
   invocations (fst (handle_submission (answering [79, 75]) (environ_with_key [])
     (Some [OPENAI_API_KEY \<mapsto> PStr []]) True (ascii ''hello'') data_scientist)) = []"
  using empty_key_is_missing [of "environ_with_key []" "Some [OPENAI_API_KEY \<mapsto> PStr []]"
      "[OPENAI_API_KEY \<mapsto> PStr []]" "answering [79, 75]" "ascii ''hello''" data_scientist]
  by (simp add: environ_with_key_def)

end
